theory Spec2Isabelle
  imports Main
begin

section \<open>The report step chip (ReportStepMessage.vue, component EditorBugStep)\<close>

text \<open>
  The component is a Vue single-file component: eight props, two computed properties
  (\<open>color\<close>, \<open>textColor\<close>), two methods (\<open>showPrevReport\<close>, \<open>showNextReport\<close>) and a
  template. Each of them is embedded below as a function of \<open>this\<close>, the record of the
  props, which is all the state the instance has (it declares no \<open>data\<close>).
\<close>

subsection \<open>Values\<close>

text \<open>
  Objects are held by reference. \<open>obj_ref\<close> is the identity of an object the caller
  supplies as \<open>prevStep\<close> or \<open>nextStep\<close>; \<open>bus_ref\<close> is the identity of the event bus
  the caller supplies as \<open>bus\<close> (an object with Vue's \<open>$emit(name, ...args)\<close>).
\<close>

type_synonym obj_ref = nat
type_synonym bus_ref = nat

text \<open>
  A prop declared \<open>[String, Number]\<close>. The component passes numbers through and never
  computes with them, so their carrier \<open>'n\<close> is left open.
\<close>

datatype 'n str_or_num = Str string | Num 'n

text \<open>
  The values that can stand as an argument of \<open>$emit\<close>: \<open>null\<close>, a string, a reference
  to an object that already exists, and an object literal built on the spot, given by
  its fields in order.
\<close>

datatype js_value =
    JsNull
  | JsString string
  | JsObject obj_ref
  | JsLiteral "(string \<times> js_value) list"

subsection \<open>Props\<close>

text \<open>
  \<^verbatim>\<open>
  props: {
    id: { type: [ String, Number ], required: true },
    value: { type: String, required: true },
    marginLeft: { type: String, default: "" },
    type: { type: String, default: null },
    index: { type: [ Number, String ], default: null },
    bus: { type: Object, default: null },
    prevStep: { type: Object, default: null },
    nextStep: { type: Object, default: null }
  }
  \<close>
  A prop whose default is \<open>null\<close> is an option, \<open>None\<close> for \<open>null\<close> (an omitted prop
  takes its default). The props \<open>id\<close> and \<open>value\<close> are the fields \<open>id_prop\<close> and
  \<open>value_prop\<close>.
\<close>

record 'n props =
  id_prop :: "'n str_or_num"
  value_prop :: string
  marginLeft :: string
  type :: "string option"
  index :: "'n str_or_num option"
  bus :: "bus_ref option"
  prevStep :: "obj_ref option"
  nextStep :: "obj_ref option"

subsection \<open>Computed properties\<close>

text \<open>
  \<^verbatim>\<open>
  color() {
    switch (this.type) {
    case "error": return "#f2dede";
    case "fixit": return "#fcf8e3";
    case "macro": return "#d7dac2";
    case "note":  return "#d7d7d7";
    default:      return "#bfdfe9";
    }
  }
  \<close>
  A \<open>switch\<close> compares with \<open>===\<close>, case by case in order; \<open>null\<close> equals no string.
\<close>

definition color :: "'n props \<Rightarrow> string" where
  "color this =
     (if type this = Some ''error'' then ''#f2dede''
      else if type this = Some ''fixit'' then ''#fcf8e3''
      else if type this = Some ''macro'' then ''#d7dac2''
      else if type this = Some ''note'' then ''#d7d7d7''
      else ''#bfdfe9'')"

text \<open>
  \<^verbatim>\<open>
  textColor() {
    switch (this.type) {
    case "error": return "#a94442";
    case "fixit": return "#8a6d3b";
    case "macro": return "#4f5c6d";
    case "note":  return "#4f5c6d";
    default:      return "#00546f";
    }
  }
  \<close>
\<close>

definition textColor :: "'n props \<Rightarrow> string" where
  "textColor this =
     (if type this = Some ''error'' then ''#a94442''
      else if type this = Some ''fixit'' then ''#8a6d3b''
      else if type this = Some ''macro'' then ''#4f5c6d''
      else if type this = Some ''note'' then ''#4f5c6d''
      else ''#00546f'')"

subsection \<open>The world outside the component\<close>

text \<open>
  What the component shares with its caller: the objects the caller holds (the steps the
  props \<open>prevStep\<close> and \<open>nextStep\<close> refer to), with their contents \<open>'o\<close>, and the
  events published so far, oldest first. An event is one call of \<open>$emit\<close>: the bus it
  was called on, the event name and the arguments after the name. What the subscribers
  of a bus do with an event is the caller's code, not the component's.
\<close>

datatype event = Emit (event_bus: bus_ref) (event_name: string) (event_args: "js_value list")

record 'o world =
  objects :: "obj_ref \<rightharpoonup> 'o"
  emitted :: "event list"

datatype js_error = TypeError

text \<open>
  The truth value of a prop of type \<open>Object\<close>: an object is truthy, \<open>null\<close> is not.
\<close>

definition truthy :: "'a option \<Rightarrow> bool" where
  "truthy x = (case x of None \<Rightarrow> False | Some _ \<Rightarrow> True)"

text \<open>The prop \<open>prevStep\<close> or \<open>nextStep\<close> as the argument of a call.\<close>

definition js_of :: "obj_ref option \<Rightarrow> js_value" where
  "js_of x = (case x of None \<Rightarrow> JsNull | Some r \<Rightarrow> JsObject r)"

text \<open>
  The member call \<open>this.bus.$emit(name, ...args)\<close>. Reading \<open>$emit\<close> of \<open>null\<close> throws
  a TypeError; on a bus the call publishes the event.
\<close>

fun emit :: "bus_ref option \<Rightarrow> string \<Rightarrow> js_value list \<Rightarrow> 'o world \<Rightarrow> js_error + 'o world" where
  "emit None name args w = Inl TypeError"
| "emit (Some b) name args w = Inr (w\<lparr>emitted := emitted w @ [Emit b name args]\<rparr>)"

subsection \<open>Methods\<close>

text \<open>
  \<^verbatim>\<open>
  showPrevReport() {
    if (this.prevStep && this.bus)
      this.bus.$emit("jpmToPrevReport", this.prevStep);
  },
  showNextReport() {
    if (this.nextStep && this.bus)
      this.bus.$emit("jpmToNextReport", this.nextStep);
  }
  \<close>
  A method takes the world and returns the world after it, or the error it throws.
\<close>

definition showPrevReport :: "'n props \<Rightarrow> 'o world \<Rightarrow> js_error + 'o world" where
  "showPrevReport this w =
     (if truthy (prevStep this) \<and> truthy (bus this)
      then emit (bus this) ''jpmToPrevReport'' [js_of (prevStep this)] w
      else Inr w)"

definition showNextReport :: "'n props \<Rightarrow> 'o world \<Rightarrow> js_error + 'o world" where
  "showNextReport this w =
     (if truthy (nextStep this) \<and> truthy (bus this)
      then emit (bus this) ''jpmToNextReport'' [js_of (nextStep this)] w
      else Inr w)"

subsection \<open>Template\<close>

text \<open>
  \<^verbatim>\<open>
  <v-chip small class="report-step-msg" :color="color" :text-color="textColor"
          :step-id="id" :type="type" :style="{ 'margin-left': marginLeft }">
    <report-step-enum-icon :type="type" :index="index" class="mr-1" />
    <v-btn v-if="prevStep" left text icon small @click="showPrevReport">
      <v-icon>mdi-chevron-left</v-icon>
    </v-btn>
    {{ value }}
    <v-btn v-if="nextStep" right text icon small @click="showNextReport">
      <v-icon>mdi-chevron-right</v-icon>
    </v-btn>
  </v-chip>
  \<close>
  The rendered chip: its bound attributes and its children in order. A button carries
  its side, the name of its icon and the method its click calls. The constant
  attributes (\<open>small\<close>, \<open>text\<close>, \<open>icon\<close>, the classes) are the same in every
  rendering and are left out.
\<close>

datatype handler = ShowPrevReport | ShowNextReport

datatype side = BtnLeft | BtnRight

datatype 'n vnode =
    ReportStepEnumIcon "string option" "'n str_or_num option"
  | VBtn side string handler
  | TextNode string

record 'n v_chip =
  chip_color :: string
  chip_text_color :: string
  chip_step_id :: "'n str_or_num"
  chip_type :: "string option"
  chip_margin_left :: string
  chip_children :: "'n vnode list"

definition render :: "'n props \<Rightarrow> 'n v_chip" where
  "render this =
     \<lparr> chip_color = color this,
       chip_text_color = textColor this,
       chip_step_id = id_prop this,
       chip_type = type this,
       chip_margin_left = marginLeft this,
       chip_children =
         [ReportStepEnumIcon (type this) (index this)]
         @ (if truthy (prevStep this) then [VBtn BtnLeft ''mdi-chevron-left'' ShowPrevReport] else [])
         @ [TextNode (value_prop this)]
         @ (if truthy (nextStep this) then [VBtn BtnRight ''mdi-chevron-right'' ShowNextReport] else []) \<rparr>"

text \<open>A click on a button calls the method bound to it.\<close>

fun click :: "handler \<Rightarrow> 'n props \<Rightarrow> 'o world \<Rightarrow> js_error + 'o world" where
  "click ShowPrevReport this w = showPrevReport this w"
| "click ShowNextReport this w = showNextReport this w"

text \<open>The chip has a control for a handler when one of its buttons calls it.\<close>

fun calls :: "handler \<Rightarrow> 'n vnode \<Rightarrow> bool" where
  "calls h (VBtn s i h') = (h = h')"
| "calls h (ReportStepEnumIcon t i) = False"
| "calls h (TextNode s) = False"

definition has_control :: "handler \<Rightarrow> 'n v_chip \<Rightarrow> bool" where
  "has_control h chip = list_ex (calls h) (chip_children chip)"

subsection \<open>The operations of the component\<close>

text \<open>
  Everything Vue can run of the component: the two computed properties, the render
  function of the template, and a click on one of the buttons. An operation returns its
  result and the world after it. The computed properties and the template only read
  \<open>this\<close>: they hold no assignment and no call but the two \<open>$emit\<close> calls of the
  methods.
\<close>

datatype operation = Color | TextColor | Render | Click handler

datatype 'n outcome = Returned string | Rendered "'n v_chip" | Finished

fun perform :: "operation \<Rightarrow> 'n props \<Rightarrow> 'o world \<Rightarrow> js_error + ('n outcome \<times> 'o world)" where
  "perform Color this w = Inr (Returned (color this), w)"
| "perform TextColor this w = Inr (Returned (textColor this), w)"
| "perform Render this w = Inr (Rendered (render this), w)"
| "perform (Click h) this w =
     (case click h this w of Inl err \<Rightarrow> Inl err | Inr w' \<Rightarrow> Inr (Finished, w'))"

subsection \<open>The event of the specification\<close>

text \<open>
  The specification names one outbound event for both directions,
  \<open>navigate-to-step\<close>, with the payload \<open>{ target: NeighborReference, direction:
  "backward"|"forward" }\<close>. \<open>spec_navigate_event\<close> is that event, written from the
  specification's words, to be compared with what the methods publish.
\<close>

datatype direction = Backward | Forward

definition direction_name :: "direction \<Rightarrow> string" where
  "direction_name d = (case d of Backward \<Rightarrow> ''backward'' | Forward \<Rightarrow> ''forward'')"

definition spec_navigate_event :: "bus_ref \<Rightarrow> direction \<Rightarrow> obj_ref \<Rightarrow> event" where
  "spec_navigate_event b d n =
     Emit b ''navigate-to-step''
       [JsLiteral [(''target'', JsObject n), (''direction'', JsString (direction_name d))]]"

subsection \<open>A scenario\<close>

text \<open>
  The step \<open>s1\<close> of a trace, an error, with the step before it (object 1) and the step
  after it (object 2) as neighbours, and the bus 7 of the trace; nothing has been
  published yet.
\<close>

definition step_s1 :: "int props" where
  "step_s1 =
     \<lparr> id_prop = Str ''s1'', value_prop = ''Null pointer dereference'', marginLeft = ''12px'',
       type = Some ''error'', index = Some (Num 2), bus = Some 7,
       prevStep = Some 1, nextStep = Some 2 \<rparr>"

definition trace_world :: "string world" where
  "trace_world = \<lparr> objects = [1 \<mapsto> ''s0'', 2 \<mapsto> ''s2''], emitted = [] \<rparr>"

text \<open>
  Another step of the same category, with nothing else in common with \<open>s1\<close>: a number
  as its id, no index, no neighbours and no bus.
\<close>

definition step_s9 :: "nat props" where
  "step_s9 =
     \<lparr> id_prop = Num 9, value_prop = ''Division by zero'', marginLeft = '''',
       type = Some ''error'', index = None, bus = None,
       prevStep = None, nextStep = None \<rparr>"

subsection \<open>What an operation published\<close>

text \<open>
  The events of the world \<open>w'\<close> after an operation that the world \<open>w\<close> before it did
  not have yet.
\<close>

definition published_by :: "'o world \<Rightarrow> 'o world \<Rightarrow> event list" where
  "published_by w w' = drop (length (emitted w)) (emitted w')"

section \<open>Auxiliary facts\<close>

text \<open>A method returns the world as it was, or the world with its one event added.\<close>

lemma showPrevReport_cases:
  "showPrevReport this w = Inr w \<or>
   (\<exists>b n. bus this = Some b \<and> prevStep this = Some n \<and>
      showPrevReport this w = Inr (w\<lparr>emitted := emitted w @ [Emit b ''jpmToPrevReport'' [JsObject n]]\<rparr>))"
  by (cases "prevStep this"; cases "bus this")
    (simp_all add: showPrevReport_def truthy_def js_of_def)

lemma showNextReport_cases:
  "showNextReport this w = Inr w \<or>
   (\<exists>b n. bus this = Some b \<and> nextStep this = Some n \<and>
      showNextReport this w = Inr (w\<lparr>emitted := emitted w @ [Emit b ''jpmToNextReport'' [JsObject n]]\<rparr>))"
  by (cases "nextStep this"; cases "bus this")
    (simp_all add: showNextReport_def truthy_def js_of_def)

lemma click_cases:
  "click h this w = Inr w \<or>
   (\<exists>b name a. bus this = Some b \<and> click h this w = Inr (w\<lparr>emitted := emitted w @ [Emit b name a]\<rparr>))"
proof (cases h)
  case ShowPrevReport
  with showPrevReport_cases [of this w] show ?thesis by auto
next
  case ShowNextReport
  with showNextReport_cases [of this w] show ?thesis by auto
qed

text \<open>The template renders a button exactly under its \<open>v-if\<close>.\<close>

lemma has_control_render:
  "has_control ShowPrevReport (render this) = truthy (prevStep this)"
  "has_control ShowNextReport (render this) = truthy (nextStep this)"
  by (simp_all add: has_control_def render_def)

section \<open>Navigation events\<close>

text \<open>
  C1, as the code has it. For each direction, when the neighbour of that direction and
  the bus are present, the method publishes exactly one event, on that bus: the world
  after it is the world before it with one more event at the end of the trace. The event
  is named \<open>jpmToPrevReport\<close> for the previous step and \<open>jpmToNextReport\<close> for the
  next one, and its only argument is the neighbour itself. Nothing is published under
  the name of the opposite direction.
\<close>

theorem navigation_publishes_one_event:
  "(prevStep this = Some n \<and> bus this = Some b \<longrightarrow>
      showPrevReport this w = Inr (w\<lparr>emitted := emitted w @ [Emit b ''jpmToPrevReport'' [JsObject n]]\<rparr>)) \<and>
   (nextStep this = Some n \<and> bus this = Some b \<longrightarrow>
      showNextReport this w = Inr (w\<lparr>emitted := emitted w @ [Emit b ''jpmToNextReport'' [JsObject n]]\<rparr>))"
  by (simp add: showPrevReport_def showNextReport_def truthy_def js_of_def)

theorem navigation_publishes_one_event_witness:
  "showPrevReport step_s1 trace_world =
     Inr (trace_world\<lparr>emitted := [Emit 7 ''jpmToPrevReport'' [JsObject 1]]\<rparr>) \<and>
   showNextReport step_s1 trace_world =
     Inr (trace_world\<lparr>emitted := [Emit 7 ''jpmToNextReport'' [JsObject 2]]\<rparr>)"
proof -
  have p: "prevStep step_s1 = Some 1 \<and> bus step_s1 = Some 7"
    by (simp add: step_s1_def)
  have n: "nextStep step_s1 = Some 2 \<and> bus step_s1 = Some 7"
    by (simp add: step_s1_def)
  have e: "emitted trace_world = []"
    by (simp add: trace_world_def)
  from navigation_publishes_one_event [of step_s1 1 7 trace_world] p
  have "showPrevReport step_s1 trace_world =
     Inr (trace_world\<lparr>emitted := emitted trace_world @ [Emit 7 ''jpmToPrevReport'' [JsObject 1]]\<rparr>)"
    by blast
  moreover from navigation_publishes_one_event [of step_s1 2 7 trace_world] n
  have "showNextReport step_s1 trace_world =
     Inr (trace_world\<lparr>emitted := emitted trace_world @ [Emit 7 ''jpmToNextReport'' [JsObject 2]]\<rparr>)"
    by blast
  ultimately show ?thesis by (simp add: e)
qed

text \<open>
  C1, as the specification words it, fails. With the step before as neighbour 1 and the
  bus 7, \<open>showPrevReport\<close> publishes the event \<open>jpmToPrevReport\<close> with the neighbour
  as its argument, which is not the event \<open>navigate-to-step\<close> with the payload
  \<open>{ target: neighbour, direction: "backward" }\<close>.
\<close>

theorem navigate_to_step_counterexample:
  "showPrevReport step_s1 trace_world =
     Inr (trace_world\<lparr>emitted := [Emit 7 ''jpmToPrevReport'' [JsObject 1]]\<rparr>) \<and>
   Emit 7 ''jpmToPrevReport'' [JsObject 1] \<noteq> spec_navigate_event 7 Backward 1"
  by (simp add: showPrevReport_def truthy_def js_of_def step_s1_def trace_world_def
      spec_navigate_event_def)

section \<open>The category colours\<close>

text \<open>
  C2. For each of the four categories error, fixit, macro and note, the computed
  properties \<open>color\<close> and \<open>textColor\<close> return the background and text colour of the
  table: error gives (#f2dede, #a94442), fixit (#fcf8e3, #8a6d3b), macro
  (#d7dac2, #4f5c6d) and note (#d7d7d7, #4f5c6d).
\<close>

theorem category_colours:
  "(type this = Some ''error'' \<longrightarrow> (color this, textColor this) = (''#f2dede'', ''#a94442'')) \<and>
   (type this = Some ''fixit'' \<longrightarrow> (color this, textColor this) = (''#fcf8e3'', ''#8a6d3b'')) \<and>
   (type this = Some ''macro'' \<longrightarrow> (color this, textColor this) = (''#d7dac2'', ''#4f5c6d'')) \<and>
   (type this = Some ''note'' \<longrightarrow> (color this, textColor this) = (''#d7d7d7'', ''#4f5c6d''))"
  by (simp add: color_def textColor_def)

theorem category_colours_witness:
  "(color (step_s1\<lparr>type := Some ''error''\<rparr>), textColor (step_s1\<lparr>type := Some ''error''\<rparr>))
      = (''#f2dede'', ''#a94442'') \<and>
   (color (step_s1\<lparr>type := Some ''fixit''\<rparr>), textColor (step_s1\<lparr>type := Some ''fixit''\<rparr>))
      = (''#fcf8e3'', ''#8a6d3b'') \<and>
   (color (step_s1\<lparr>type := Some ''macro''\<rparr>), textColor (step_s1\<lparr>type := Some ''macro''\<rparr>))
      = (''#d7dac2'', ''#4f5c6d'') \<and>
   (color (step_s1\<lparr>type := Some ''note''\<rparr>), textColor (step_s1\<lparr>type := Some ''note''\<rparr>))
      = (''#d7d7d7'', ''#4f5c6d'')"
  using category_colours [of "step_s1\<lparr>type := Some ''error''\<rparr>"]
    category_colours [of "step_s1\<lparr>type := Some ''fixit''\<rparr>"]
    category_colours [of "step_s1\<lparr>type := Some ''macro''\<rparr>"]
    category_colours [of "step_s1\<lparr>type := Some ''note''\<rparr>"]
  by simp

text \<open>
  C3. For every other value of the category, \<open>null\<close>, the empty string and any
  string that is not one of the four among them, \<open>color\<close> and \<open>textColor\<close> return the
  default pair (#bfdfe9, #00546f). Both are total and have no error result: the
  \<open>switch\<close> ends in a \<open>default\<close> arm and throws nowhere.
\<close>

theorem unknown_category_default:
  "type this \<notin> {Some ''error'', Some ''fixit'', Some ''macro'', Some ''note''} \<Longrightarrow>
   (color this, textColor this) = (''#bfdfe9'', ''#00546f'')"
  by (simp add: color_def textColor_def)

theorem unknown_category_default_witness:
  "(color (step_s1\<lparr>type := None\<rparr>), textColor (step_s1\<lparr>type := None\<rparr>))
      = (''#bfdfe9'', ''#00546f'') \<and>
   (color (step_s1\<lparr>type := Some ''''\<rparr>), textColor (step_s1\<lparr>type := Some ''''\<rparr>))
      = (''#bfdfe9'', ''#00546f'') \<and>
   (color (step_s1\<lparr>type := Some ''unspecified-garbage''\<rparr>),
    textColor (step_s1\<lparr>type := Some ''unspecified-garbage''\<rparr>))
      = (''#bfdfe9'', ''#00546f'') \<and>
   (color (step_s1\<lparr>type := Some ''Error''\<rparr>), textColor (step_s1\<lparr>type := Some ''Error''\<rparr>))
      = (''#bfdfe9'', ''#00546f'')"
  using unknown_category_default [of "step_s1\<lparr>type := None\<rparr>"]
    unknown_category_default [of "step_s1\<lparr>type := Some ''''\<rparr>"]
    unknown_category_default [of "step_s1\<lparr>type := Some ''unspecified-garbage''\<rparr>"]
    unknown_category_default [of "step_s1\<lparr>type := Some ''Error''\<rparr>"]
  by simp

text \<open>
  C7. The colours are a function of the category alone: two instances whose \<open>type\<close>
  props are equal get the same \<open>color\<close> and the same \<open>textColor\<close>, whatever their
  other props are. The computed properties take no world: nothing outside \<open>this\<close> is
  read.
\<close>

theorem style_depends_on_type_only:
  "type this = type that \<Longrightarrow> color this = color that \<and> textColor this = textColor that"
  by (simp add: color_def textColor_def)

theorem style_depends_on_type_only_witness:
  "type step_s1 = type step_s9 \<and> value_prop step_s1 \<noteq> value_prop step_s9 \<and>
   bus step_s1 \<noteq> bus step_s9 \<and>
   color step_s1 = color step_s9 \<and> textColor step_s1 = textColor step_s9"
  using style_depends_on_type_only [of step_s1 step_s9]
  by (simp add: step_s1_def step_s9_def)

section \<open>Navigation without a bus or without a neighbour\<close>

text \<open>
  C4. When the bus is absent, both methods return the world unchanged, so nothing is
  published, and neither throws, whether the neighbours are present or not: the guard
  keeps \<open>$emit\<close> from being read of \<open>null\<close>.
\<close>

theorem no_bus_no_event:
  "bus this = None \<Longrightarrow> showPrevReport this w = Inr w \<and> showNextReport this w = Inr w"
  by (simp add: showPrevReport_def showNextReport_def truthy_def)

theorem no_bus_no_event_witness:
  "prevStep (step_s1\<lparr>bus := None\<rparr>) = Some 1 \<and> nextStep (step_s1\<lparr>bus := None\<rparr>) = Some 2 \<and>
   showPrevReport (step_s1\<lparr>bus := None\<rparr>) trace_world = Inr trace_world \<and>
   showNextReport (step_s1\<lparr>bus := None\<rparr>) trace_world = Inr trace_world"
  using no_bus_no_event [of "step_s1\<lparr>bus := None\<rparr>" trace_world]
  by (simp add: step_s1_def)

text \<open>
  C5. When the neighbour of a direction is absent, the method of that direction
  returns the world unchanged: it publishes nothing, also when the bus is present.
\<close>

theorem no_neighbor_no_event:
  "(prevStep this = None \<longrightarrow> showPrevReport this w = Inr w) \<and>
   (nextStep this = None \<longrightarrow> showNextReport this w = Inr w)"
  by (simp add: showPrevReport_def showNextReport_def truthy_def)

theorem no_neighbor_no_event_witness:
  "bus (step_s1\<lparr>prevStep := None\<rparr>) = Some 7 \<and>
   showPrevReport (step_s1\<lparr>prevStep := None\<rparr>) trace_world = Inr trace_world \<and>
   bus (step_s1\<lparr>nextStep := None\<rparr>) = Some 7 \<and>
   showNextReport (step_s1\<lparr>nextStep := None\<rparr>) trace_world = Inr trace_world"
  using no_neighbor_no_event [of "step_s1\<lparr>prevStep := None\<rparr>" trace_world]
    no_neighbor_no_event [of "step_s1\<lparr>nextStep := None\<rparr>" trace_world]
  by (simp add: step_s1_def)

section \<open>The navigation controls\<close>

text \<open>
  C6. The rendered chip has the control of a direction exactly when the neighbour of
  that direction is present: the button that calls \<open>showPrevReport\<close> is there if and
  only if \<open>prevStep\<close> is not \<open>null\<close>, and the button that calls \<open>showNextReport\<close> if
  and only if \<open>nextStep\<close> is not \<open>null\<close>.
\<close>

theorem control_iff_neighbor:
  "has_control ShowPrevReport (render this) = (prevStep this \<noteq> None) \<and>
   has_control ShowNextReport (render this) = (nextStep this \<noteq> None)"
  by (simp add: has_control_render truthy_def split: option.split)

theorem control_iff_neighbor_witness:
  "\<not> has_control ShowPrevReport (render (step_s1\<lparr>prevStep := None\<rparr>)) \<and>
   has_control ShowNextReport (render (step_s1\<lparr>prevStep := None\<rparr>)) \<and>
   has_control ShowPrevReport (render (step_s1\<lparr>nextStep := None\<rparr>)) \<and>
   \<not> has_control ShowNextReport (render (step_s1\<lparr>nextStep := None\<rparr>))"
  using control_iff_neighbor [of "step_s1\<lparr>prevStep := None\<rparr>"]
    control_iff_neighbor [of "step_s1\<lparr>nextStep := None\<rparr>"]
  by (simp add: step_s1_def)

text \<open>
  C9. Whether a control is rendered does not depend on the bus: the rendering is the
  same whatever the \<open>bus\<close> prop is. So with a neighbour present and the bus absent, the
  control of that direction is still rendered, and a click on it publishes nothing.
\<close>

theorem control_visible_without_bus:
  "(prevStep this = Some n \<and> bus this = None \<longrightarrow>
      has_control ShowPrevReport (render this) \<and> click ShowPrevReport this w = Inr w) \<and>
   (nextStep this = Some n \<and> bus this = None \<longrightarrow>
      has_control ShowNextReport (render this) \<and> click ShowNextReport this w = Inr w) \<and>
   render (this\<lparr>bus := b\<rparr>) = render this"
proof -
  have "render (this\<lparr>bus := b\<rparr>) = render this"
    by (simp add: render_def color_def textColor_def)
  moreover have "prevStep this = Some n \<and> bus this = None \<longrightarrow>
      has_control ShowPrevReport (render this) \<and> click ShowPrevReport this w = Inr w"
    by (simp add: has_control_render truthy_def showPrevReport_def)
  moreover have "nextStep this = Some n \<and> bus this = None \<longrightarrow>
      has_control ShowNextReport (render this) \<and> click ShowNextReport this w = Inr w"
    by (simp add: has_control_render truthy_def showNextReport_def)
  ultimately show ?thesis by blast
qed

theorem control_visible_without_bus_witness:
  "has_control ShowPrevReport (render (step_s1\<lparr>bus := None\<rparr>)) \<and>
   click ShowPrevReport (step_s1\<lparr>bus := None\<rparr>) trace_world = Inr trace_world \<and>
   has_control ShowNextReport (render (step_s1\<lparr>bus := None\<rparr>)) \<and>
   click ShowNextReport (step_s1\<lparr>bus := None\<rparr>) trace_world = Inr trace_world \<and>
   render (step_s1\<lparr>bus := None\<rparr>) = render step_s1"
  using control_visible_without_bus [of "step_s1\<lparr>bus := None\<rparr>" 1 trace_world None]
    control_visible_without_bus [of "step_s1\<lparr>bus := None\<rparr>" 2 trace_world None]
    control_visible_without_bus [of step_s1 1 trace_world None]
  by (simp add: step_s1_def)

section \<open>Effects\<close>

text \<open>
  C8. Every operation of the component (a computed property, the rendering, a click
  on a control) returns normally and leaves the caller's objects as they were. The world
  after it is the world before it, or the world before it with one event more, published
  on the bus the component was given; nothing else of the world changes. The props are
  only read: no operation returns new props.
\<close>

theorem only_effect_is_publishing:
  "\<exists>r w'. perform op this w = Inr (r, w') \<and> objects w' = objects w \<and>
     (w' = w \<or> (\<exists>b name a. bus this = Some b \<and> w' = w\<lparr>emitted := emitted w @ [Emit b name a]\<rparr>))"
proof (cases op)
  case (Click h)
  from click_cases [of h this w] show ?thesis
  proof
    assume "click h this w = Inr w"
    with Click show ?thesis by simp
  next
    assume "\<exists>b name a. bus this = Some b \<and>
      click h this w = Inr (w\<lparr>emitted := emitted w @ [Emit b name a]\<rparr>)"
    then obtain b name a where b: "bus this = Some b"
      and c: "click h this w = Inr (w\<lparr>emitted := emitted w @ [Emit b name a]\<rparr>)"
      by blast
    let ?w' = "w\<lparr>emitted := emitted w @ [Emit b name a]\<rparr>"
    from Click c have "perform op this w = Inr (Finished, ?w')"
      by simp
    moreover have "objects ?w' = objects w"
      by simp
    ultimately show ?thesis
      using b by blast
  qed
qed simp_all

theorem only_effect_is_publishing_witness:
  "perform (Click ShowNextReport) step_s1 trace_world =
     Inr (Finished, trace_world\<lparr>emitted := [Emit 7 ''jpmToNextReport'' [JsObject 2]]\<rparr>) \<and>
   perform Render step_s1 trace_world = Inr (Rendered (render step_s1), trace_world)"
  using only_effect_is_publishing [of "Click ShowNextReport" step_s1 trace_world]
  by (simp add: showNextReport_def truthy_def js_of_def step_s1_def trace_world_def)

section \<open>Event names and payload\<close>

text \<open>
  C10. Every event \<open>showPrevReport\<close> publishes is named \<open>jpmToPrevReport\<close> and every
  event \<open>showNextReport\<close> publishes is named \<open>jpmToNextReport\<close>; the two names differ.
  In each case the event has one argument, the neighbour object of that direction
  itself: a reference, not a record around it, and no direction beside it.
\<close>

theorem event_names_and_payload:
  "(showPrevReport this w = Inr w' \<and> e \<in> set (published_by w w') \<longrightarrow>
      event_name e = ''jpmToPrevReport'' \<and> (\<exists>n. prevStep this = Some n \<and> event_args e = [JsObject n])) \<and>
   (showNextReport this w = Inr w' \<and> e \<in> set (published_by w w') \<longrightarrow>
      event_name e = ''jpmToNextReport'' \<and> (\<exists>n. nextStep this = Some n \<and> event_args e = [JsObject n])) \<and>
   ''jpmToPrevReport'' \<noteq> ''jpmToNextReport''"
  by (cases "prevStep this"; cases "nextStep this"; cases "bus this")
    (auto simp add: showPrevReport_def showNextReport_def truthy_def js_of_def published_by_def)

theorem event_names_and_payload_witness:
  "showPrevReport step_s1 trace_world =
     Inr (trace_world\<lparr>emitted := [Emit 7 ''jpmToPrevReport'' [JsObject 1]]\<rparr>) \<and>
   published_by trace_world (trace_world\<lparr>emitted := [Emit 7 ''jpmToPrevReport'' [JsObject 1]]\<rparr>)
     = [Emit 7 ''jpmToPrevReport'' [JsObject 1]] \<and>
   event_name (Emit 7 ''jpmToPrevReport'' [JsObject 1]) = ''jpmToPrevReport'' \<and>
   prevStep step_s1 = Some 1 \<and>
   event_args (Emit 7 ''jpmToPrevReport'' [JsObject 1]) = [JsObject 1] \<and>
   showNextReport step_s1 trace_world =
     Inr (trace_world\<lparr>emitted := [Emit 7 ''jpmToNextReport'' [JsObject 2]]\<rparr>) \<and>
   published_by trace_world (trace_world\<lparr>emitted := [Emit 7 ''jpmToNextReport'' [JsObject 2]]\<rparr>)
     = [Emit 7 ''jpmToNextReport'' [JsObject 2]] \<and>
   event_name (Emit 7 ''jpmToNextReport'' [JsObject 2]) = ''jpmToNextReport'' \<and>
   nextStep step_s1 = Some 2 \<and>
   event_args (Emit 7 ''jpmToNextReport'' [JsObject 2]) = [JsObject 2]"
proof -
  let ?p = "Emit 7 ''jpmToPrevReport'' [JsObject 1]"
  let ?n = "Emit 7 ''jpmToNextReport'' [JsObject 2]"
  have sp: "showPrevReport step_s1 trace_world = Inr (trace_world\<lparr>emitted := [?p]\<rparr>)"
    by (simp add: showPrevReport_def truthy_def js_of_def step_s1_def trace_world_def)
  have sn: "showNextReport step_s1 trace_world = Inr (trace_world\<lparr>emitted := [?n]\<rparr>)"
    by (simp add: showNextReport_def truthy_def js_of_def step_s1_def trace_world_def)
  have pp: "published_by trace_world (trace_world\<lparr>emitted := [?p]\<rparr>) = [?p]"
    by (simp add: published_by_def trace_world_def)
  have pn: "published_by trace_world (trace_world\<lparr>emitted := [?n]\<rparr>) = [?n]"
    by (simp add: published_by_def trace_world_def)
  from event_names_and_payload [of step_s1 trace_world "trace_world\<lparr>emitted := [?p]\<rparr>" ?p] sp pp
  have "event_name ?p = ''jpmToPrevReport'' \<and>
      (\<exists>n. prevStep step_s1 = Some n \<and> event_args ?p = [JsObject n])"
    by simp
  moreover
  from event_names_and_payload [of step_s1 trace_world "trace_world\<lparr>emitted := [?n]\<rparr>" ?n] sn pn
  have "event_name ?n = ''jpmToNextReport'' \<and>
      (\<exists>n. nextStep step_s1 = Some n \<and> event_args ?n = [JsObject n])"
    by simp
  ultimately show ?thesis
    using sp sn pp pn by auto
qed

end
